theory Spec2Isabelle
  imports Main "HOL-Library.Word"
begin

section \<open>The Start hook of KPodHIDDriver\<close>

text \<open>
  The source, \<^verbatim>\<open>KPodHIDDriver/KPodHIDDriver.cpp\<close>, is one method:
  \<^verbatim>\<open>
  kern_return_t
  IMPL(KPodHIDDriver, Start)
  {
      kern_return_t ret;
      ret = Start(provider, SUPERDISPATCH);
      os_log(OS_LOG_DEFAULT, "Hello World");
      return ret;
  }
  \<close>
  It calls three things that DriverKit owns: the dispatching \<^verbatim>\<open>Start\<close> of the class
  (which, given \<^verbatim>\<open>SUPERDISPATCH\<close>, runs the superclass's routine), the macro
  \<^verbatim>\<open>SUPERDISPATCH\<close>, and \<^verbatim>\<open>os_log\<close>. The behaviour of the superclass routine and the
  value of \<^verbatim>\<open>SUPERDISPATCH\<close> are parameters of the model; what the method itself does is
  written into a trace of events, in program order.
\<close>

subsection \<open>Data\<close>

text \<open>\<^verbatim>\<open>kern_return_t\<close> is a C \<^verbatim>\<open>int\<close>; the two handles are pointers, with 0 the null pointer.\<close>

type_synonym kern_return_t = "32 word"
type_synonym IOService_ptr = "64 word"
type_synonym OSDispatchMethod = "64 word"

definition nullptr :: IOService_ptr where
  "nullptr = 0"

text \<open>
  The status codes of the framework that the scenarios name: success is 0; every other value
  is a failure, of which \<^verbatim>\<open>kIOReturnError\<close> (0xe00002bc) is the general one.
\<close>

definition kIOReturnSuccess :: kern_return_t where
  "kIOReturnSuccess = 0"

definition kIOReturnError :: kern_return_t where
  "kIOReturnError = 0xe00002bc"

text \<open>The log objects of \<^verbatim>\<open>os/log.h\<close>.\<close>

datatype os_log_t = OS_LOG_DEFAULT | OS_LOG_DISABLED

text \<open>
  What the method does that can be observed from outside it: control passing to the superclass
  routine with two arguments, control coming back with a status, and a record handed to the
  system log.
\<close>

datatype event =
    Super_Start_called IOService_ptr OSDispatchMethod
  | Super_Start_returned kern_return_t
  | Os_log os_log_t string

text \<open>
  The world the method runs in. \<open>host\<close> is everything that is not the method's own: the
  state of the framework and of the driver object, which the superclass routine reads and
  writes. Its type is left open. \<open>trace\<close> is the history of events so far, oldest first.
\<close>

record 'h world =
  host :: 'h
  trace :: "event list"

text \<open>
  The superclass routine \<^verbatim>\<open>IOService::Start\<close>: from the provider, the dispatch token and the
  host state to a status and a new host state. It is any function at all.
\<close>

type_synonym 'h superclass =
  "IOService_ptr \<Rightarrow> OSDispatchMethod \<Rightarrow> 'h \<Rightarrow> kern_return_t \<times> 'h"

subsection \<open>Operations\<close>

text \<open>
  \<^verbatim>\<open>Start(provider, supermethod)\<close>, line 19: the call into the superclass routine. The call and
  its return are recorded around the routine's effect on the host state.
\<close>

definition Start ::
  "'h superclass \<Rightarrow> IOService_ptr \<Rightarrow> OSDispatchMethod \<Rightarrow> 'h world \<Rightarrow> kern_return_t \<times> 'h world" where
  "Start super provider supermethod w =
     (let (ret, h) = super provider supermethod (host w) in
      (ret, w\<lparr>host := h,
              trace := trace w @ [Super_Start_called provider supermethod,
                                  Super_Start_returned ret]\<rparr>))"

text \<open>
  Modelled from the spec: \<^verbatim>\<open>os_log\<close> is declared in \<^verbatim>\<open>os/log.h\<close>, which is not among the
  sources. The spec has it write one diagnostic record to the system-wide logging facility,
  a literal string with no further format; the record is the event \<open>Os_log\<close>.
\<close>

definition os_log :: "os_log_t \<Rightarrow> string \<Rightarrow> 'h world \<Rightarrow> 'h world" where
  "os_log log msg w = w\<lparr>trace := trace w @ [Os_log log msg]\<rparr>"

text \<open>
  \<^verbatim>\<open>IMPL(KPodHIDDriver, Start)\<close>, lines 15 to 22. \<^verbatim>\<open>provider\<close> is the argument the macro
  \<^verbatim>\<open>IMPL\<close> declares; \<^verbatim>\<open>SUPERDISPATCH\<close> is a macro of the framework whose definition is not
  among the sources, so its value is an argument here as well.
\<close>

definition KPodHIDDriver_Start ::
  "'h superclass \<Rightarrow> OSDispatchMethod \<Rightarrow> IOService_ptr \<Rightarrow> 'h world \<Rightarrow> kern_return_t \<times> 'h world" where
  "KPodHIDDriver_Start super SUPERDISPATCH provider w =
     (let (ret, w1) = Start super provider SUPERDISPATCH w;
          w2 = os_log OS_LOG_DEFAULT ''Hello World'' w1
      in (ret, w2))"

subsection \<open>Reading a trace\<close>

text \<open>The events of one invocation: what the trace after it holds beyond the trace before.\<close>

definition emitted :: "'h world \<Rightarrow> 'h world \<Rightarrow> event list" where
  "emitted w w' = drop (length (trace w)) (trace w')"

text \<open>The log records among some events, and the calls into the superclass among them.\<close>

fun log_records :: "event list \<Rightarrow> (os_log_t \<times> string) list" where
  "log_records [] = []"
| "log_records (Os_log log msg # es) = (log, msg) # log_records es"
| "log_records (Super_Start_called p d # es) = log_records es"
| "log_records (Super_Start_returned r # es) = log_records es"

fun super_calls :: "event list \<Rightarrow> (IOService_ptr \<times> OSDispatchMethod) list" where
  "super_calls [] = []"
| "super_calls (Super_Start_called p d # es) = (p, d) # super_calls es"
| "super_calls (Os_log log msg # es) = super_calls es"
| "super_calls (Super_Start_returned r # es) = super_calls es"

text \<open>Whether an event belongs to the call into the superclass (its entry or its return).\<close>

fun is_super_event :: "event \<Rightarrow> bool" where
  "is_super_event (Super_Start_called p d) = True"
| "is_super_event (Super_Start_returned r) = True"
| "is_super_event (Os_log log msg) = False"

text \<open>
  \<open>precedes a b es\<close>: both events occur in \<open>es\<close>, and the first \<open>a\<close> comes strictly before
  the first \<open>b\<close>.
\<close>

fun precedes :: "event \<Rightarrow> event \<Rightarrow> event list \<Rightarrow> bool" where
  "precedes a b [] = False"
| "precedes a b (e # es) = (if e = a then b \<in> set es else e \<noteq> b \<and> precedes a b es)"

subsection \<open>Sample environments\<close>

text \<open>
  Two superclass routines over a host state that counts the calls made into it, one that
  succeeds and one that fails, and a world with no history: the concrete inputs at which the
  properties below are evaluated.
\<close>

definition super_ok :: "nat superclass" where
  "super_ok provider d h = (kIOReturnSuccess, Suc h)"

definition super_failing :: "nat superclass" where
  "super_failing provider d h = (kIOReturnError, Suc h)"

definition boot :: "nat world" where
  "boot = \<lparr>host = 0, trace = []\<rparr>"

section \<open>Properties\<close>

subsection \<open>The method in one equation\<close>

lemma Start_eq:
  "Start super provider d w =
     (fst (super provider d (host w)),
      \<lparr>host = snd (super provider d (host w)),
       trace = trace w @ [Super_Start_called provider d,
                          Super_Start_returned (fst (super provider d (host w)))]\<rparr>)"
  by (simp add: Start_def split_beta)

lemma KPodHIDDriver_Start_eq:
  "KPodHIDDriver_Start super d provider w =
     (fst (super provider d (host w)),
      \<lparr>host = snd (super provider d (host w)),
       trace = trace w @ [Super_Start_called provider d,
                          Super_Start_returned (fst (super provider d (host w))),
                          Os_log OS_LOG_DEFAULT ''Hello World'']\<rparr>)"
  by (simp add: KPodHIDDriver_Start_def Start_eq os_log_def)

lemma emitted_KPodHIDDriver_Start:
  "emitted w (snd (KPodHIDDriver_Start super d provider w)) =
     [Super_Start_called provider d,
      Super_Start_returned (fst (super provider d (host w))),
      Os_log OS_LOG_DEFAULT ''Hello World'']"
  by (simp add: KPodHIDDriver_Start_eq emitted_def)

subsection \<open>The returned status\<close>

text \<open>
  C1. For every provider handle, the Start entry point returns exactly the status code that
  the superclass routine returns for that handle (with the dispatch token, in the host state
  of the invocation), whatever that status is: nothing is classified, recovered or suppressed.
\<close>

theorem Start_returns_superclass_status:
  "fst (KPodHIDDriver_Start super d provider w) = fst (super provider d (host w))"
  by (simp add: KPodHIDDriver_Start_eq)

subsection \<open>The log record\<close>

text \<open>
  C2. Every invocation of the Start entry point emits exactly one diagnostic log record,
  never zero and never more than one, whatever status the superclass call returned.
\<close>

theorem Start_emits_one_log_record:
  "length (log_records (emitted w (snd (KPodHIDDriver_Start super d provider w)))) = 1"
  by (simp add: emitted_KPodHIDDriver_Start)

text \<open>
  C3. The content of the log line is the same in every invocation: two invocations with
  different superclass routines, dispatch tokens, provider handles and worlds (even over
  different kinds of host state) emit the same log records.
\<close>

theorem Start_log_content_constant:
  "log_records (emitted w (snd (KPodHIDDriver_Start super d provider w))) =
   log_records (emitted w' (snd (KPodHIDDriver_Start super' d' provider' w')))"
  by (simp add: emitted_KPodHIDDriver_Start)

text \<open>
  C8. The message of the one record is exactly the literal string "Hello World", written to
  the default log object.
\<close>

theorem Start_logs_Hello_World:
  "log_records (emitted w (snd (KPodHIDDriver_Start super d provider w))) =
     [(OS_LOG_DEFAULT, ''Hello World'')]"
  by (simp add: emitted_KPodHIDDriver_Start)

text \<open>
  C10. The log output does not depend on the status of the superclass call: two invocations
  whose superclass calls return different status codes emit identical log output.
\<close>

theorem Start_log_independent_of_status:
  "fst (super provider d (host w)) \<noteq> fst (super' provider' d' (host w')) \<Longrightarrow>
   log_records (emitted w (snd (KPodHIDDriver_Start super d provider w))) =
   log_records (emitted w' (snd (KPodHIDDriver_Start super' d' provider' w')))"
  by (simp add: emitted_KPodHIDDriver_Start)

theorem Start_log_independent_of_status_witness:
  "fst (super_ok 7 1 (host boot)) \<noteq> fst (super_failing 7 1 (host boot)) \<and>
   log_records (emitted boot (snd (KPodHIDDriver_Start super_ok 1 7 boot))) =
   log_records (emitted boot (snd (KPodHIDDriver_Start super_failing 1 7 boot)))"
proof -
  have differ: "fst (super_ok 7 1 (host boot)) \<noteq> fst (super_failing 7 1 (host boot))"
    by (simp add: super_ok_def super_failing_def kIOReturnSuccess_def kIOReturnError_def)
  from Start_log_independent_of_status [of super_ok 7 1 boot super_failing 7 1 boot] differ
  show ?thesis
    by blast
qed

subsection \<open>The call into the superclass\<close>

text \<open>
  C4. Every invocation makes exactly one call into the superclass's Start routine, and that
  call carries the provider handle and the dispatch token of the invocation itself.
\<close>

theorem Start_calls_superclass_once:
  "super_calls (emitted w (snd (KPodHIDDriver_Start super d provider w))) = [(provider, d)]"
  by (simp add: emitted_KPodHIDDriver_Start)

text \<open>
  C9. The provider handle is not validated. For every handle the first thing the entry point
  does is the call into the superclass with that very handle; in particular with the null
  handle the call is still made, with the null handle, and the outcome (status and host state)
  is the one the superclass routine gives for it: there is no early failure.
\<close>

theorem Start_forwards_any_provider:
  "hd (emitted w (snd (KPodHIDDriver_Start super d provider w))) = Super_Start_called provider d
   \<and> super_calls (emitted w (snd (KPodHIDDriver_Start super d nullptr w))) = [(nullptr, d)]
   \<and> fst (KPodHIDDriver_Start super d nullptr w) = fst (super nullptr d (host w))
   \<and> host (snd (KPodHIDDriver_Start super d nullptr w)) = snd (super nullptr d (host w))"
  by (simp add: emitted_def KPodHIDDriver_Start_eq)

subsection \<open>Success and failure\<close>

text \<open>
  C5. If the superclass call returns the success status, the entry point returns the success
  status and exactly one log line is observed; if it returns a failure status, the entry point
  returns that failure status and the same single log line is observed, with no further log.
\<close>

theorem Start_success_and_failure:
  "(fst (super provider d (host w)) = kIOReturnSuccess \<longrightarrow>
      fst (KPodHIDDriver_Start super d provider w) = kIOReturnSuccess \<and>
      log_records (emitted w (snd (KPodHIDDriver_Start super d provider w))) =
        [(OS_LOG_DEFAULT, ''Hello World'')])
   \<and> (fst (super provider d (host w)) = S_ERR \<and> S_ERR \<noteq> kIOReturnSuccess \<longrightarrow>
      fst (KPodHIDDriver_Start super d provider w) = S_ERR \<and>
      log_records (emitted w (snd (KPodHIDDriver_Start super d provider w))) =
        [(OS_LOG_DEFAULT, ''Hello World'')])"
  by (simp add: emitted_def KPodHIDDriver_Start_eq)

theorem Start_success_and_failure_witness:
  "fst (super_ok 7 1 (host boot)) = kIOReturnSuccess
   \<and> fst (KPodHIDDriver_Start super_ok 1 7 boot) = kIOReturnSuccess
   \<and> log_records (emitted boot (snd (KPodHIDDriver_Start super_ok 1 7 boot))) =
        [(OS_LOG_DEFAULT, ''Hello World'')]
   \<and> fst (super_failing 7 1 (host boot)) = kIOReturnError
   \<and> kIOReturnError \<noteq> kIOReturnSuccess
   \<and> fst (KPodHIDDriver_Start super_failing 1 7 boot) = kIOReturnError
   \<and> log_records (emitted boot (snd (KPodHIDDriver_Start super_failing 1 7 boot))) =
        [(OS_LOG_DEFAULT, ''Hello World'')]"
proof -
  have ok: "fst (super_ok 7 1 (host boot)) = kIOReturnSuccess"
    by (simp add: super_ok_def)
  have failing: "fst (super_failing 7 1 (host boot)) = kIOReturnError"
    by (simp add: super_failing_def)
  have failure: "kIOReturnError \<noteq> kIOReturnSuccess"
    by (simp add: kIOReturnSuccess_def kIOReturnError_def)
  from Start_success_and_failure [of super_ok 7 1 boot kIOReturnError] ok
  have "fst (KPodHIDDriver_Start super_ok 1 7 boot) = kIOReturnSuccess \<and>
        log_records (emitted boot (snd (KPodHIDDriver_Start super_ok 1 7 boot))) =
          [(OS_LOG_DEFAULT, ''Hello World'')]"
    by blast
  moreover from Start_success_and_failure [of super_failing 7 1 boot kIOReturnError]
    failing failure
  have "fst (KPodHIDDriver_Start super_failing 1 7 boot) = kIOReturnError \<and>
        log_records (emitted boot (snd (KPodHIDDriver_Start super_failing 1 7 boot))) =
          [(OS_LOG_DEFAULT, ''Hello World'')]"
    by blast
  ultimately show ?thesis
    using ok failing failure by blast
qed

subsection \<open>Order of events\<close>

text \<open>
  C6. In every invocation the superclass call has returned, with the status the entry point
  will return, strictly before the log record is emitted, and the log record is the last
  thing that happens before the entry point returns. At no moment of the invocation (no
  prefix of its events) is a log record present without the return of the superclass call.
\<close>

theorem Start_superclass_returns_before_log:
  "precedes (Super_Start_called provider d)
            (Super_Start_returned (fst (KPodHIDDriver_Start super d provider w)))
            (emitted w (snd (KPodHIDDriver_Start super d provider w)))
   \<and> precedes (Super_Start_returned (fst (KPodHIDDriver_Start super d provider w)))
              (Os_log OS_LOG_DEFAULT ''Hello World'')
              (emitted w (snd (KPodHIDDriver_Start super d provider w)))
   \<and> last (emitted w (snd (KPodHIDDriver_Start super d provider w))) =
       Os_log OS_LOG_DEFAULT ''Hello World''
   \<and> (\<forall>n log msg.
        Os_log log msg \<in> set (take n (emitted w (snd (KPodHIDDriver_Start super d provider w)))) \<longrightarrow>
        Super_Start_returned (fst (KPodHIDDriver_Start super d provider w))
          \<in> set (take n (emitted w (snd (KPodHIDDriver_Start super d provider w)))))"
  by (auto simp add: emitted_def KPodHIDDriver_Start_eq take_Cons'
           split: if_splits)

theorem Start_superclass_returns_before_log_witness:
  "Os_log OS_LOG_DEFAULT ''Hello World''
     \<in> set (take 3 (emitted boot (snd (KPodHIDDriver_Start super_ok 1 7 boot))))
   \<and> Super_Start_returned kIOReturnSuccess
     \<in> set (take 3 (emitted boot (snd (KPodHIDDriver_Start super_ok 1 7 boot))))
   \<and> Os_log OS_LOG_DEFAULT ''Hello World''
     \<notin> set (take 2 (emitted boot (snd (KPodHIDDriver_Start super_ok 1 7 boot))))"
proof -
  have logged: "Os_log OS_LOG_DEFAULT ''Hello World''
      \<in> set (take 3 (emitted boot (snd (KPodHIDDriver_Start super_ok 1 7 boot))))"
    by (simp add: emitted_def KPodHIDDriver_Start_def Start_def os_log_def super_ok_def boot_def)
  have not_yet: "Os_log OS_LOG_DEFAULT ''Hello World''
      \<notin> set (take 2 (emitted boot (snd (KPodHIDDriver_Start super_ok 1 7 boot))))"
    by (simp add: emitted_def KPodHIDDriver_Start_def Start_def os_log_def super_ok_def boot_def
          numeral_2_eq_2)
  have status: "fst (KPodHIDDriver_Start super_ok 1 7 boot) = kIOReturnSuccess"
    by (simp add: KPodHIDDriver_Start_def Start_def os_log_def super_ok_def boot_def)
  from Start_superclass_returns_before_log [of 7 1 super_ok boot] logged
  have "Super_Start_returned (fst (KPodHIDDriver_Start super_ok 1 7 boot))
      \<in> set (take 3 (emitted boot (snd (KPodHIDDriver_Start super_ok 1 7 boot))))"
    by blast
  with logged not_yet status show ?thesis
    by simp
qed

subsection \<open>Frame\<close>

text \<open>
  C7. Beyond the superclass call, the only effect of an invocation is the one log emission.
  The host state (the driver object and everything else outside the method) is left exactly
  as the superclass call left it; the history before the invocation is untouched; the events
  of the invocation other than the call and its return are the single log record; and
  nothing is carried from one invocation to the next: the outcome depends on the world only
  through the host state, not through what happened before.
\<close>

theorem Start_frame:
  "host (snd (KPodHIDDriver_Start super d provider w)) = snd (super provider d (host w))
   \<and> take (length (trace w)) (trace (snd (KPodHIDDriver_Start super d provider w))) = trace w
   \<and> filter (\<lambda>e. \<not> is_super_event e) (emitted w (snd (KPodHIDDriver_Start super d provider w))) =
       [Os_log OS_LOG_DEFAULT ''Hello World'']
   \<and> fst (KPodHIDDriver_Start super d provider (w\<lparr>trace := t\<rparr>)) =
       fst (KPodHIDDriver_Start super d provider w)
   \<and> host (snd (KPodHIDDriver_Start super d provider (w\<lparr>trace := t\<rparr>))) =
       host (snd (KPodHIDDriver_Start super d provider w))
   \<and> emitted (w\<lparr>trace := t\<rparr>) (snd (KPodHIDDriver_Start super d provider (w\<lparr>trace := t\<rparr>))) =
       emitted w (snd (KPodHIDDriver_Start super d provider w))"
  by (simp add: emitted_def KPodHIDDriver_Start_eq)

end
